theory Spec2Isabelle
  imports Main
begin

section \<open>The rate-limiting wrapper of warden-worker\<close>

text \<open>
  A shallow embedding of \<^verbatim>\<open>src/rate-limit-wrapper.js\<close>. The wrapper is a Workers module
  with two entry points, \<^verbatim>\<open>fetch\<close> and \<^verbatim>\<open>scheduled\<close>; it talks to three collaborators that
  are not part of the file: the request object handed in by the platform, the rate limiter
  bound in \<^verbatim>\<open>env\<close>, and the \<^verbatim>\<open>WasmWorker\<close> class imported from the build output.

  \<^item> JavaScript strings are modelled as \<^typ>\<open>string\<close>, that is with code units below 256.
  \<^item> A \<^verbatim>\<open>throw\<close> (or a rejected promise) is the left injection of a sum, a normal
    completion the right one. \<^verbatim>\<open>await\<close> is sequencing: a call of a collaborator is taken
    to complete, with a value or with an exception.
  \<^item> Everything the wrapper does to the outside (reading a body, writing to the console,
    calling the limiter, calling the backend) is appended to a trace of events; the
    state of the outside world that the limiter and the backend own is a type parameter.
\<close>

subsection \<open>Strings\<close>

text \<open>
  \<^verbatim>\<open>String.prototype.toLowerCase\<close> on code units below 256: the letters A to Z and the
  capital letters of the Latin-1 block (0xC0 to 0xDE without the multiplication sign 0xD7)
  move up by 32, every other code unit stays.
\<close>

definition lower_char :: "char \<Rightarrow> char" where
  "lower_char c =
     (let n = (of_char c :: nat) in
      if (65 \<le> n \<and> n \<le> 90) \<or> (192 \<le> n \<and> n \<le> 222 \<and> n \<noteq> 215)
      then char_of (n + 32) else c)"

definition toLowerCase :: "string \<Rightarrow> string" where
  "toLowerCase s = map lower_char s"

text \<open>\<^verbatim>\<open>s.includes(sub)\<close>: \<open>sub\<close> occurs in \<open>s\<close> as a contiguous piece.\<close>

primrec str_includes :: "string \<Rightarrow> string \<Rightarrow> bool" where
  "str_includes [] sub = (sub = [])"
| "str_includes (c # cs) sub = (take (length sub) (c # cs) = sub \<or> str_includes cs sub)"

text \<open>
  \<^verbatim>\<open>v || d\<close> for a \<open>v\<close> that is a string or \<^verbatim>\<open>null\<close>: the empty string is falsy, like
  \<^verbatim>\<open>null\<close>.
\<close>

definition js_or :: "string option \<Rightarrow> string \<Rightarrow> string" where
  "js_or v d = (case v of None \<Rightarrow> d | Some x \<Rightarrow> if x = [] then d else x)"

subsection \<open>Values read from a request body\<close>

datatype exn = TypeError | SyntaxError | HostError string

text \<open>An entry of a \<^verbatim>\<open>FormData\<close> is a string or a \<^verbatim>\<open>File\<close>.\<close>

datatype form_value = FormString string | FormFile

text \<open>\<^verbatim>\<open>formData.get(name)\<close>: the first entry of that name, or \<^verbatim>\<open>null\<close>.\<close>

definition form_get :: "(string \<times> form_value) list \<Rightarrow> string \<Rightarrow> form_value option" where
  "form_get fd name = map_of fd name"

text \<open>
  What \<^verbatim>\<open>request.json()\<close> can resolve to, and \<^verbatim>\<open>undefined\<close> for a property that is not
  there. Of a number only whether it is zero is ever looked at. An object is the list of
  its own properties, each name once.
\<close>

datatype jsvalue =
    JUndefined
  | JNull
  | JBool bool
  | JNumber int
  | JString string
  | JArray "jsvalue list"
  | JObject "(string \<times> jsvalue) list"

fun truthy :: "jsvalue \<Rightarrow> bool" where
  "truthy JUndefined = False"
| "truthy JNull = False"
| "truthy (JBool b) = b"
| "truthy (JNumber n) = (n \<noteq> 0)"
| "truthy (JString s) = (s \<noteq> [])"
| "truthy (JArray xs) = True"
| "truthy (JObject kvs) = True"

text \<open>
  \<^verbatim>\<open>body.name\<close> for the two names the wrapper reads, \<^verbatim>\<open>email\<close> and \<^verbatim>\<open>username\<close>, which
  no prototype defines: a \<^verbatim>\<open>TypeError\<close> on \<^verbatim>\<open>null\<close>, the own property of an object,
  \<^verbatim>\<open>undefined\<close> otherwise.
\<close>

fun get_prop :: "jsvalue \<Rightarrow> string \<Rightarrow> exn + jsvalue" where
  "get_prop JNull name = Inl TypeError"
| "get_prop JUndefined name = Inl TypeError"
| "get_prop (JObject kvs) name =
     Inr (case map_of kvs name of None \<Rightarrow> JUndefined | Some v \<Rightarrow> v)"
| "get_prop v name = Inr JUndefined"

text \<open>
  \<^verbatim>\<open>v.toLowerCase()\<close>: only a string has the method; on any other truthy value the call
  is a \<^verbatim>\<open>TypeError\<close> (a value parsed from JSON never holds a function).
\<close>

fun js_toLowerCase :: "jsvalue \<Rightarrow> exn + string" where
  "js_toLowerCase (JString s) = Inr (toLowerCase s)"
| "js_toLowerCase v = Inl TypeError"

fun form_toLowerCase :: "form_value \<Rightarrow> exn + string" where
  "form_toLowerCase (FormString s) = Inr (toLowerCase s)"
| "form_toLowerCase FormFile = Inl TypeError"

fun form_truthy :: "form_value \<Rightarrow> bool" where
  "form_truthy (FormString s) = (s \<noteq> [])"
| "form_truthy FormFile = True"

subsection \<open>Requests and responses\<close>

text \<open>
  A \<^verbatim>\<open>Headers\<close> object: header names are case-insensitive, so the map is keyed by the
  lower-cased name; \<^verbatim>\<open>get\<close> answers \<^verbatim>\<open>null\<close> for a header that is not there. A header may
  be present with the empty string as its value.
\<close>

type_synonym headers = "string \<rightharpoonup> string"

definition headers_get :: "headers \<Rightarrow> string \<Rightarrow> string option" where
  "headers_get h name = h (toLowerCase name)"

definition headers_init :: "(string \<times> string) list \<Rightarrow> headers" where
  "headers_init kvs = map_of (map (\<lambda>(k, v). (toLowerCase k, v)) kvs)"

text \<open>
  The request as the wrapper sees it: \<open>url_pathname\<close> is \<^verbatim>\<open>new URL(request.url).pathname\<close>
  (the URL of a request is absolute, so the constructor does not throw, and the path of
  an http URL starts with a slash); \<open>bodyUsed\<close> makes \<^verbatim>\<open>clone()\<close> throw; \<open>formData\<close> and
  \<open>json\<close> are what the platform's parsers make of the body of a clone.
\<close>

record request =
  url_pathname :: string
  headers :: headers
  bodyUsed :: bool
  formData :: "exn + (string \<times> form_value) list"
  json :: "exn + jsvalue"

record response =
  status :: nat
  resp_headers :: headers
  resp_body :: string

record scheduled_event =
  cron :: string
  scheduledTime :: nat

datatype exec_ctx = ExecutionContext

subsection \<open>Effects\<close>

datatype event =
    RequestClone
  | BodyFormData
  | BodyJson
  | ConsoleWarn string "exn option"
  | ConsoleError string "exn option"
  | LimiterLimit string
  | WorkerFetch request
  | WorkerScheduled scheduled_event

record 'w state =
  world :: 'w
  trace :: "event list"

definition emit :: "event list \<Rightarrow> 'w state \<Rightarrow> 'w state" where
  "emit evs s = s\<lparr>trace := trace s @ evs\<rparr>"

text \<open>
  A binding of \<^verbatim>\<open>env\<close>: a rate limiter, whose \<^verbatim>\<open>limit({key})\<close> resolves to
  \<^verbatim>\<open>{success}\<close> or throws, and may change the world (its counters); a text variable; or
  some other platform object, which has no \<^verbatim>\<open>limit\<close> method.
\<close>

datatype 'w binding =
    RateLimiter "string \<Rightarrow> 'w \<Rightarrow> (exn + bool) \<times> 'w"
  | TextBinding string
  | ObjectBinding

type_synonym 'w env = "string \<rightharpoonup> 'w binding"

text \<open>\<^verbatim>\<open>!limiter\<close> is false for an object and for a non-empty string.\<close>

fun binding_truthy :: "'w binding option \<Rightarrow> bool" where
  "binding_truthy None = False"
| "binding_truthy (Some (TextBinding t)) = (t \<noteq> [])"
| "binding_truthy (Some b) = True"

text \<open>
  \<^verbatim>\<open>await limiter.limit({ key })\<close>. Calling the method of a binding that has none is a
  \<^verbatim>\<open>TypeError\<close>, raised before anything is called.
\<close>

fun call_limit :: "'w binding \<Rightarrow> string \<Rightarrow> 'w state \<Rightarrow> (exn + bool) \<times> 'w state" where
  "call_limit (RateLimiter lim) k s =
     (let (r, w') = lim k (world s)
      in (r, s\<lparr>world := w', trace := trace s @ [LimiterLimit k]\<rparr>))"
| "call_limit b k s = (Inl TypeError, s)"

text \<open>
  The class imported from the build output: \<^verbatim>\<open>new WasmWorker(ctx, env)\<close> gives an instance
  with the methods \<^verbatim>\<open>fetch\<close> and \<^verbatim>\<open>scheduled\<close>, which act on the world.
\<close>

record 'w worker =
  worker_fetch :: "request \<Rightarrow> 'w \<Rightarrow> (exn + response) \<times> 'w"
  worker_scheduled :: "scheduled_event \<Rightarrow> 'w \<Rightarrow> (exn + unit) \<times> 'w"

type_synonym 'w worker_class = "exec_ctx \<Rightarrow> 'w env \<Rightarrow> 'w worker"

subsection \<open>extractRateLimitKey\<close>

text \<open>
  The body of the \<^verbatim>\<open>try\<close> block: it ends with a key (a \<^verbatim>\<open>return\<close>), falls through, or
  throws. The second component lists the calls made on the request.
\<close>

definition try_email :: "request \<Rightarrow> (exn + string option) \<times> event list" where
  "try_email request =
     (if bodyUsed request then (Inl TypeError, [RequestClone])
      else
        let contentType = js_or (headers_get (headers request) ''content-type'') '''' in
        if str_includes contentType ''application/x-www-form-urlencoded'' then
          (case formData request of
             Inl e \<Rightarrow> (Inl e, [RequestClone, BodyFormData])
           | Inr fd \<Rightarrow>
               (case form_get fd ''username'' of
                  None \<Rightarrow> Inr None
                | Some username \<Rightarrow>
                    if form_truthy username
                    then (case form_toLowerCase username of
                            Inl e \<Rightarrow> Inl e
                          | Inr l \<Rightarrow> Inr (Some (''email:'' @ l)))
                    else Inr None,
                [RequestClone, BodyFormData]))
        else if str_includes contentType ''application/json'' then
          (case json request of
             Inl e \<Rightarrow> (Inl e, [RequestClone, BodyJson])
           | Inr body \<Rightarrow>
               (case get_prop body ''email'' of
                  Inl e \<Rightarrow> Inl e
                | Inr em \<Rightarrow>
                    (case (if truthy em then Inr em else get_prop body ''username'') of
                       Inl e \<Rightarrow> Inl e
                     | Inr email \<Rightarrow>
                         if truthy email
                         then (case js_toLowerCase email of
                                 Inl e \<Rightarrow> Inl e
                               | Inr l \<Rightarrow> Inr (Some (''email:'' @ l)))
                         else Inr None),
                [RequestClone, BodyJson]))
        else (Inr None, [RequestClone]))"

definition extractRateLimitKey :: "request \<Rightarrow> string \<Rightarrow> string \<times> event list" where
  "extractRateLimitKey request keyType =
     (let (returned, evs) =
        (if keyType = ''email'' then
           (case try_email request of
              (Inr r, evs) \<Rightarrow> (r, evs)
            | (Inl e, evs) \<Rightarrow>
                (None, evs @ [ConsoleWarn ''Failed to extract email from request body:'' (Some e)]))
         else (None, []))
      in case returned of
           Some k \<Rightarrow> (k, evs)
         | None \<Rightarrow>
             let ip = js_or (headers_get (headers request) ''cf-connecting-ip'') ''unknown''
             in (''ip:'' @ ip, evs))"

subsection \<open>checkRateLimit\<close>

record endpoint_config =
  limiter :: string
  keyType :: string

definition RATE_LIMITED_ENDPOINTS :: "string \<rightharpoonup> endpoint_config" where
  "RATE_LIMITED_ENDPOINTS =
     map_of
       [(''/identity/connect/token'', \<lparr>limiter = ''LOGIN_RATE_LIMITER'', keyType = ''email''\<rparr>),
        (''/api/accounts/register'', \<lparr>limiter = ''LOGIN_RATE_LIMITER'', keyType = ''ip''\<rparr>),
        (''/api/accounts/prelogin'', \<lparr>limiter = ''LOGIN_RATE_LIMITER'', keyType = ''ip''\<rparr>)]"

record decision =
  limited :: bool
  key :: string
  endpoint :: string

definition binding_missing_message :: "string \<Rightarrow> string" where
  "binding_missing_message name =
     ''Rate limiter binding '' @ [CHR 0x27] @ name @ [CHR 0x27]
       @ '' not found, skipping rate limit check''"

definition checkRateLimit :: "request \<Rightarrow> 'w env \<Rightarrow> 'w state \<Rightarrow> decision option \<times> 'w state" where
  "checkRateLimit request env s =
     (let pathname = url_pathname request in
      case RATE_LIMITED_ENDPOINTS pathname of
        None \<Rightarrow> (None, s)
      | Some endpointConfig \<Rightarrow>
          if \<not> binding_truthy (env (limiter endpointConfig))
          then (None, emit [ConsoleWarn (binding_missing_message (limiter endpointConfig)) None] s)
          else
            let (k, evs) = extractRateLimitKey request (keyType endpointConfig);
                s1 = emit evs s
            in (case call_limit (the (env (limiter endpointConfig))) k s1 of
                  (Inr success, s2) \<Rightarrow>
                    (Some \<lparr>limited = \<not> success, key = k, endpoint = pathname\<rparr>, s2)
                | (Inl e, s2) \<Rightarrow>
                    (None, emit [ConsoleError ''Rate limit check failed:'' (Some e)] s2)))"

subsection \<open>createRateLimitResponse\<close>

text \<open>
  The object literal \<^verbatim>\<open>errorResponse\<close> is built of strings and nested objects only;
  \<^verbatim>\<open>JSON.stringify\<close> of such a value writes its properties in order, without white
  space, each string quoted.
\<close>

datatype json_literal = JStr string | JObj "(string \<times> json_literal) list"

definition hex_digit :: "nat \<Rightarrow> char" where
  "hex_digit n = ''0123456789abcdef'' ! (n mod 16)"

definition quote_char :: "char \<Rightarrow> string" where
  "quote_char c =
     (let n = (of_char c :: nat) in
      if n = 34 then [CHR 0x5C, CHR 0x22]
      else if n = 92 then [CHR 0x5C, CHR 0x5C]
      else if n = 8 then [CHR 0x5C, CHR ''b'']
      else if n = 12 then [CHR 0x5C, CHR ''f'']
      else if n = 10 then [CHR 0x5C, CHR ''n'']
      else if n = 13 then [CHR 0x5C, CHR ''r'']
      else if n = 9 then [CHR 0x5C, CHR ''t'']
      else if n < 32 then [CHR 0x5C, CHR ''u'', CHR ''0'', CHR ''0'', hex_digit (n div 16), hex_digit n]
      else [c])"

definition quote_string :: "string \<Rightarrow> string" where
  "quote_string s = [CHR 0x22] @ concat (map quote_char s) @ [CHR 0x22]"

fun join_commas :: "string list \<Rightarrow> string" where
  "join_commas [] = []"
| "join_commas [x] = x"
| "join_commas (x # y # ys) = x @ '','' @ join_commas (y # ys)"

fun JSON_stringify :: "json_literal \<Rightarrow> string" where
  "JSON_stringify (JStr s) = quote_string s"
| "JSON_stringify (JObj kvs) =
     ''{'' @ join_commas (map (\<lambda>(k, v). quote_string k @ '':'' @ JSON_stringify v) kvs) @ ''}''"

definition errorResponse :: json_literal where
  "errorResponse =
     JObj [(''error'', JStr ''too_many_requests''),
           (''error_description'', JStr ''Too many requests. Please try again later.''),
           (''ErrorModel'',
              JObj [(''Message'', JStr ''Too many requests. Please try again later.''),
                    (''Object'', JStr ''error'')])]"

definition createRateLimitResponse :: "string \<Rightarrow> string \<Rightarrow> response \<times> event list" where
  "createRateLimitResponse k ep =
     (\<lparr>status = 429,
       resp_headers = headers_init [(''Content-Type'', ''application/json''), (''Retry-After'', ''60'')],
       resp_body = JSON_stringify errorResponse\<rparr>,
      [ConsoleWarn (''Rate limit exceeded for '' @ ep @ '', key: '' @ k) None])"

subsection \<open>The entry points\<close>

definition getWasmWorker :: "'w worker_class \<Rightarrow> 'w env \<Rightarrow> exec_ctx \<Rightarrow> 'w worker" where
  "getWasmWorker WasmWorker env ctx = WasmWorker ctx env"

text \<open>\<^verbatim>\<open>rateLimitResult?.limited\<close> as a condition.\<close>

definition opt_limited :: "decision option \<Rightarrow> bool" where
  "opt_limited r = (case r of None \<Rightarrow> False | Some d \<Rightarrow> limited d)"

definition forward_fetch :: "'w worker \<Rightarrow> request \<Rightarrow> 'w state \<Rightarrow> (exn + response) \<times> 'w state" where
  "forward_fetch wasmWorker request s =
     (let (r, w') = worker_fetch wasmWorker request (world s)
      in (r, s\<lparr>world := w', trace := trace s @ [WorkerFetch request]\<rparr>))"

definition forward_scheduled ::
  "'w worker \<Rightarrow> scheduled_event \<Rightarrow> 'w state \<Rightarrow> (exn + unit) \<times> 'w state" where
  "forward_scheduled wasmWorker ev s =
     (let (r, w') = worker_scheduled wasmWorker ev (world s)
      in (r, s\<lparr>world := w', trace := trace s @ [WorkerScheduled ev]\<rparr>))"

definition fetch ::
  "'w worker_class \<Rightarrow> request \<Rightarrow> 'w env \<Rightarrow> exec_ctx \<Rightarrow> 'w state \<Rightarrow> (exn + response) \<times> 'w state" where
  "fetch WasmWorker request env ctx s =
     (let (rateLimitResult, s1) = checkRateLimit request env s in
      if opt_limited rateLimitResult
      then (let (resp, evs) = createRateLimitResponse (key (the rateLimitResult))
                                (endpoint (the rateLimitResult))
            in (Inr resp, emit evs s1))
      else
        let wasmWorker = getWasmWorker WasmWorker env ctx
        in forward_fetch wasmWorker request s1)"

definition scheduled ::
  "'w worker_class \<Rightarrow> scheduled_event \<Rightarrow> 'w env \<Rightarrow> exec_ctx \<Rightarrow> 'w state \<Rightarrow> (exn + unit) \<times> 'w state" where
  "scheduled WasmWorker ev env ctx s =
     (let wasmWorker = getWasmWorker WasmWorker env ctx
      in forward_scheduled wasmWorker ev s)"

subsection \<open>Reading a trace\<close>

text \<open>The keys of the limiter calls in a trace, and its events that touch a request body.\<close>

fun limit_key :: "event \<Rightarrow> string option" where
  "limit_key (LimiterLimit k) = Some k"
| "limit_key e = None"

definition limit_calls :: "event list \<Rightarrow> string list" where
  "limit_calls tr = List.map_filter limit_key tr"

fun is_body_read :: "event \<Rightarrow> bool" where
  "is_body_read RequestClone = True"
| "is_body_read BodyFormData = True"
| "is_body_read BodyJson = True"
| "is_body_read e = False"

definition body_reads :: "event list \<Rightarrow> event list" where
  "body_reads tr = filter is_body_read tr"

subsection \<open>Example requests, limiters and backends\<close>

definition token_json_request :: request where
  "token_json_request =
     \<lparr>url_pathname = ''/identity/connect/token'',
      headers = [''content-type'' \<mapsto> ''application/json''],
      bodyUsed = False,
      formData = Inl TypeError,
      json = Inr (JObject [(''email'', JString ''User@Example.com''), (''password'', JString ''x'')])\<rparr>"

definition token_form_request :: request where
  "token_form_request =
     \<lparr>url_pathname = ''/identity/connect/token'',
      headers = [''content-type'' \<mapsto> ''application/x-www-form-urlencoded''],
      bodyUsed = False,
      formData = Inr [(''username'', FormString ''User@Example.com'')],
      json = Inl SyntaxError\<rparr>"

definition token_json_username_request :: request where
  "token_json_username_request =
     \<lparr>url_pathname = ''/identity/connect/token'',
      headers = [''content-type'' \<mapsto> ''application/json; charset=utf-8''],
      bodyUsed = False,
      formData = Inl TypeError,
      json = Inr (JObject [(''username'', JString ''User@Example.com'')])\<rparr>"

definition token_form_empty_username :: request where
  "token_form_empty_username =
     \<lparr>url_pathname = ''/identity/connect/token'',
      headers = [''content-type'' \<mapsto> ''application/x-www-form-urlencoded'',
                 ''cf-connecting-ip'' \<mapsto> ''1.2.3.4''],
      bodyUsed = False,
      formData = Inr [(''username'', FormString [])],
      json = Inl SyntaxError\<rparr>"

definition token_json_empty_email :: request where
  "token_json_empty_email =
     \<lparr>url_pathname = ''/identity/connect/token'',
      headers = [''content-type'' \<mapsto> ''application/json''],
      bodyUsed = False,
      formData = Inl TypeError,
      json = Inr (JObject [(''email'', JString []), (''username'', JString ''Bob@Example.com'')])\<rparr>"

definition token_text_request :: request where
  "token_text_request =
     \<lparr>url_pathname = ''/identity/connect/token'',
      headers = [''content-type'' \<mapsto> ''text/plain'', ''cf-connecting-ip'' \<mapsto> ''1.2.3.4''],
      bodyUsed = False,
      formData = Inl TypeError,
      json = Inl SyntaxError\<rparr>"

definition token_text_empty_ip :: request where
  "token_text_empty_ip =
     \<lparr>url_pathname = ''/identity/connect/token'',
      headers = [''content-type'' \<mapsto> ''text/plain'', ''cf-connecting-ip'' \<mapsto> []],
      bodyUsed = False,
      formData = Inl TypeError,
      json = Inl SyntaxError\<rparr>"

definition register_request :: request where
  "register_request =
     \<lparr>url_pathname = ''/api/accounts/register'',
      headers = [''content-type'' \<mapsto> ''application/json'', ''cf-connecting-ip'' \<mapsto> ''1.2.3.4''],
      bodyUsed = False,
      formData = Inl TypeError,
      json = Inr (JObject [(''email'', JString ''new@example.com'')])\<rparr>"

definition register_empty_ip :: request where
  "register_empty_ip =
     \<lparr>url_pathname = ''/api/accounts/register'',
      headers = [''cf-connecting-ip'' \<mapsto> []],
      bodyUsed = False,
      formData = Inl TypeError,
      json = Inl SyntaxError\<rparr>"

definition mixed_case_request :: request where
  "mixed_case_request =
     \<lparr>url_pathname = ''/Api/Accounts/Register'',
      headers = [''cf-connecting-ip'' \<mapsto> ''1.2.3.4''],
      bodyUsed = False,
      formData = Inl TypeError,
      json = Inr (JObject [(''email'', JString ''new@example.com'')])\<rparr>"

text \<open>
  A limiter that lets \<open>n\<close> calls per key through and counts every call; one that is
  down; a backend that answers 200 to everything.
\<close>

definition counting_limiter ::
  "nat \<Rightarrow> string \<Rightarrow> (string \<Rightarrow> nat) \<Rightarrow> (exn + bool) \<times> (string \<Rightarrow> nat)" where
  "counting_limiter n k w = (Inr (w k < n), w(k := Suc (w k)))"

definition failing_limiter ::
  "string \<Rightarrow> (string \<Rightarrow> nat) \<Rightarrow> (exn + bool) \<times> (string \<Rightarrow> nat)" where
  "failing_limiter k w = (Inl (HostError ''limiter unavailable''), w)"

definition ok_response :: response where
  "ok_response = \<lparr>status = 200, resp_headers = Map.empty, resp_body = ''ok''\<rparr>"

definition ok_worker :: "(string \<Rightarrow> nat) worker_class" where
  "ok_worker ctx env =
     \<lparr>worker_fetch = (\<lambda>r w. (Inr ok_response, w)),
      worker_scheduled = (\<lambda>ev w. (Inr (), w))\<rparr>"

definition limiter_env ::
  "(string \<Rightarrow> (string \<Rightarrow> nat) \<Rightarrow> (exn + bool) \<times> (string \<Rightarrow> nat)) \<Rightarrow> (string \<Rightarrow> nat) env" where
  "limiter_env lim = [''LOGIN_RATE_LIMITER'' \<mapsto> RateLimiter lim]"

definition empty_env :: "(string \<Rightarrow> nat) env" where
  "empty_env = Map.empty"

definition initial_state :: "(string \<Rightarrow> nat) state" where
  "initial_state = \<lparr>world = (\<lambda>k. 0), trace = []\<rparr>"

definition nightly_event :: scheduled_event where
  "nightly_event = \<lparr>cron = ''0 3 * * *'', scheduledTime = 0\<rparr>"

section \<open>Auxiliary facts\<close>

subsection \<open>Evaluating strings\<close>

lemma header_names:
  "toLowerCase ''content-type'' = ''content-type''"
  "toLowerCase ''cf-connecting-ip'' = ''cf-connecting-ip''"
  "toLowerCase ''Content-Type'' = ''content-type''"
  "toLowerCase ''Retry-After'' = ''retry-after''"
  by (simp_all add: toLowerCase_def lower_char_def char_of_def bit_Suc_0_iff)

lemma lower_example: "toLowerCase ''User@Example.com'' = ''user@example.com''"
  by (simp add: toLowerCase_def lower_char_def char_of_def bit_Suc_0_iff)

lemma includes_examples:
  "str_includes ''application/x-www-form-urlencoded'' ''application/x-www-form-urlencoded''"
  "str_includes ''application/json'' ''application/json''"
  "\<not> str_includes ''application/json'' ''application/x-www-form-urlencoded''"
  "str_includes ''application/json; charset=utf-8'' ''application/json''"
  "\<not> str_includes ''application/json; charset=utf-8'' ''application/x-www-form-urlencoded''"
  "\<not> str_includes ''text/plain'' ''application/x-www-form-urlencoded''"
  "\<not> str_includes ''text/plain'' ''application/json''"
  by simp_all

lemma str_includes_iff: "str_includes s sub \<longleftrightarrow> (\<exists>p q. s = p @ sub @ q)"
proof (induction s)
  case Nil
  then show ?case by auto
next
  case (Cons c cs)
  have "take (length sub) (c # cs) = sub \<longleftrightarrow> (\<exists>q. c # cs = sub @ q)"
    by (metis append_eq_conv_conj append_take_drop_id)
  moreover have "(\<exists>p q. c # cs = p @ sub @ q) \<longleftrightarrow>
                 (\<exists>q. c # cs = sub @ q) \<or> (\<exists>p q. cs = p @ sub @ q)"
  proof
    assume "\<exists>p q. c # cs = p @ sub @ q"
    then obtain p q where pq: "c # cs = p @ sub @ q" by blast
    show "(\<exists>q. c # cs = sub @ q) \<or> (\<exists>p q. cs = p @ sub @ q)"
    proof (cases p)
      case Nil
      with pq show ?thesis by auto
    next
      case (Cons a p')
      with pq have "cs = p' @ sub @ q" by simp
      then show ?thesis by blast
    qed
  next
    assume "(\<exists>q. c # cs = sub @ q) \<or> (\<exists>p q. cs = p @ sub @ q)"
    then show "\<exists>p q. c # cs = p @ sub @ q"
    proof
      assume "\<exists>q. c # cs = sub @ q"
      then obtain q where "c # cs = [] @ sub @ q" by auto
      then show ?thesis by blast
    next
      assume "\<exists>p q. cs = p @ sub @ q"
      then obtain p q where "c # cs = (c # p) @ sub @ q" by auto
      then show ?thesis by blast
    qed
  qed
  ultimately show ?case using Cons.IH by simp
qed

lemma stringify_errorResponse:
  \<open>JSON_stringify errorResponse =
     ''{"error":"too_many_requests","error_description":"Too many requests. Please try again later.","ErrorModel":{"Message":"Too many requests. Please try again later.","Object":"error"}}''\<close>
  by (simp add: errorResponse_def quote_string_def quote_char_def)

lemma missing_message:
  "binding_missing_message ''LOGIN_RATE_LIMITER''
     = ''Rate limiter binding 'LOGIN_RATE_LIMITER' not found, skipping rate limit check''"
  by (simp add: binding_missing_message_def)

subsection \<open>The policy table\<close>

lemma dom_endpoints:
  "dom RATE_LIMITED_ENDPOINTS =
     {''/identity/connect/token'', ''/api/accounts/register'', ''/api/accounts/prelogin''}"
  by (auto simp: RATE_LIMITED_ENDPOINTS_def split: if_splits)

lemma endpoint_examples:
  "RATE_LIMITED_ENDPOINTS ''/identity/connect/token''
     = Some \<lparr>limiter = ''LOGIN_RATE_LIMITER'', keyType = ''email''\<rparr>"
  "RATE_LIMITED_ENDPOINTS ''/api/accounts/register''
     = Some \<lparr>limiter = ''LOGIN_RATE_LIMITER'', keyType = ''ip''\<rparr>"
  "RATE_LIMITED_ENDPOINTS ''/api/accounts/prelogin''
     = Some \<lparr>limiter = ''LOGIN_RATE_LIMITER'', keyType = ''ip''\<rparr>"
  "RATE_LIMITED_ENDPOINTS ''/Api/Accounts/Register'' = None"
  by (simp_all add: RATE_LIMITED_ENDPOINTS_def)

subsection \<open>Key extraction\<close>

lemma extract_ip:
  "kt \<noteq> ''email'' \<Longrightarrow>
   extractRateLimitKey r kt =
     (''ip:'' @ js_or (headers_get (headers r) ''cf-connecting-ip'') ''unknown'', [])"
  by (simp add: extractRateLimitKey_def)

lemma extract_email_cases:
  "fst (extractRateLimitKey r ''email'') =
     (case fst (try_email r) of
        Inr (Some k) \<Rightarrow> k
      | _ \<Rightarrow> ''ip:'' @ js_or (headers_get (headers r) ''cf-connecting-ip'') ''unknown'')"
  by (simp add: extractRateLimitKey_def Let_def split: prod.splits sum.splits option.splits)

lemma try_email_key:
  assumes "fst (try_email r) = Inr (Some k)"
  shows "\<exists>l. k = ''email:'' @ l"
  using assms
  by (auto simp: try_email_def Let_def split: if_splits sum.splits option.splits)

lemma try_email_events:
  "snd (try_email r) \<in> {[RequestClone], [RequestClone, BodyFormData], [RequestClone, BodyJson]}"
  by (simp add: try_email_def Let_def split: sum.splits)

lemma token_json_key:
  "extractRateLimitKey token_json_request ''email''
     = (''email:user@example.com'', [RequestClone, BodyJson])"
  by (simp add: extractRateLimitKey_def try_email_def token_json_request_def headers_get_def
      header_names js_or_def lower_example)

lemma token_form_key:
  "extractRateLimitKey token_form_request ''email''
     = (''email:user@example.com'', [RequestClone, BodyFormData])"
  by (simp add: extractRateLimitKey_def try_email_def token_form_request_def headers_get_def
      header_names js_or_def form_get_def lower_example)

lemma register_key:
  "extractRateLimitKey register_request ''ip'' = (''ip:1.2.3.4'', [])"
  by (simp add: extract_ip register_request_def headers_get_def header_names js_or_def)

lemma token_text_key:
  "extractRateLimitKey token_text_request ''email'' = (''ip:1.2.3.4'', [RequestClone])"
  by (simp add: extractRateLimitKey_def try_email_def token_text_request_def headers_get_def
      header_names js_or_def)

subsection \<open>Limiter calls in a trace\<close>

lemma limit_calls_append [simp]: "limit_calls (xs @ ys) = limit_calls xs @ limit_calls ys"
  by (simp add: limit_calls_def map_filter_def)

lemma limit_calls_simps [simp]:
  "limit_calls [] = []"
  "limit_calls (LimiterLimit k # tr) = k # limit_calls tr"
  "limit_calls (ConsoleWarn m x # tr) = limit_calls tr"
  "limit_calls (ConsoleError m x # tr) = limit_calls tr"
  "limit_calls (WorkerFetch r # tr) = limit_calls tr"
  "limit_calls (WorkerScheduled ev # tr) = limit_calls tr"
  "limit_calls (RequestClone # tr) = limit_calls tr"
  "limit_calls (BodyFormData # tr) = limit_calls tr"
  "limit_calls (BodyJson # tr) = limit_calls tr"
  by (simp_all add: limit_calls_def map_filter_def)

lemma extract_events_no_limit: "limit_calls (snd (extractRateLimitKey r kt)) = []"
proof (cases "kt = ''email''")
  case False
  then show ?thesis by (simp add: extractRateLimitKey_def)
next
  case True
  obtain res evs where t: "try_email r = (res, evs)" by (cases "try_email r")
  with try_email_events [of r] have "limit_calls evs = []" by auto
  with True t show ?thesis
    by (simp add: extractRateLimitKey_def Let_def split: sum.splits option.splits)
qed

subsection \<open>The paths through checkRateLimit and fetch\<close>

lemma check_binding_falsy:
  assumes "RATE_LIMITED_ENDPOINTS (url_pathname request) = Some c"
    and "\<not> binding_truthy (env (limiter c))"
  shows "checkRateLimit request env s =
           (None, s\<lparr>trace := trace s @ [ConsoleWarn (binding_missing_message (limiter c)) None]\<rparr>)"
  using assms by (simp add: checkRateLimit_def emit_def)

lemma check_limiter_reply:
  assumes "RATE_LIMITED_ENDPOINTS (url_pathname request) = Some c"
    and "env (limiter c) = Some b" and "binding_truthy (Some b)"
    and "extractRateLimitKey request (keyType c) = (k, evs)"
    and "call_limit b k (emit evs s) = (reply, s2)"
  shows "checkRateLimit request env s =
           (case reply of
              Inr success \<Rightarrow>
                (Some \<lparr>limited = \<not> success, key = k, endpoint = url_pathname request\<rparr>, s2)
            | Inl e \<Rightarrow> (None, emit [ConsoleError ''Rate limit check failed:'' (Some e)] s2))"
  using assms by (simp add: checkRateLimit_def split: sum.splits)

lemma check_RateLimiter:
  assumes m: "RATE_LIMITED_ENDPOINTS (url_pathname request) = Some c"
    and b: "env (limiter c) = Some (RateLimiter lim)"
    and e: "extractRateLimitKey request (keyType c) = (k, evs)"
  shows "checkRateLimit request env s =
           (case fst (lim k (world s)) of
              Inr success \<Rightarrow>
                (Some \<lparr>limited = \<not> success, key = k, endpoint = url_pathname request\<rparr>,
                 \<lparr>world = snd (lim k (world s)), trace = trace s @ evs @ [LimiterLimit k]\<rparr>)
            | Inl er \<Rightarrow>
                (None,
                 \<lparr>world = snd (lim k (world s)),
                  trace = trace s @ evs @ [LimiterLimit k,
                            ConsoleError ''Rate limit check failed:'' (Some er)]\<rparr>))"
proof -
  have cl: "call_limit (RateLimiter lim) k (emit evs s) =
              (fst (lim k (world s)),
               \<lparr>world = snd (lim k (world s)), trace = trace s @ evs @ [LimiterLimit k]\<rparr>)"
    by (simp add: emit_def split: prod.splits)
  show ?thesis
    using check_limiter_reply [of request c env, OF m b _ e cl]
    by (simp add: emit_def split: sum.splits)
qed

lemma fetch_not_limited:
  assumes "checkRateLimit request env s = (r, s1)" and "\<not> opt_limited r"
  shows "fetch WasmWorker request env ctx s =
           (fst (worker_fetch (WasmWorker ctx env) request (world s1)),
            \<lparr>world = snd (worker_fetch (WasmWorker ctx env) request (world s1)),
             trace = trace s1 @ [WorkerFetch request]\<rparr>)"
  using assms
  by (simp add: fetch_def getWasmWorker_def forward_fetch_def split: prod.splits)

lemma fetch_limited:
  assumes "checkRateLimit request env s = (Some d, s1)" and "limited d"
  shows "fetch WasmWorker request env ctx s =
           (Inr (fst (createRateLimitResponse (key d) (endpoint d))),
            emit (snd (createRateLimitResponse (key d) (endpoint d))) s1)"
  using assms by (simp add: fetch_def opt_limited_def split: prod.splits)

lemma fetch_limit_calls:
  assumes m: "RATE_LIMITED_ENDPOINTS (url_pathname request) = Some c"
    and b: "env (limiter c) = Some (RateLimiter lim)"
    and k: "fst (extractRateLimitKey request (keyType c)) = k"
  shows "limit_calls (trace (snd (fetch WasmWorker request env ctx s)))
           = limit_calls (trace s) @ [k]"
proof -
  obtain evs where e: "extractRateLimitKey request (keyType c) = (k, evs)"
    using k by (cases "extractRateLimitKey request (keyType c)") simp
  have n: "limit_calls evs = []"
    using extract_events_no_limit [of request "keyType c"] e by simp
  note chk = check_RateLimiter [where env = env and s = s, OF m b e]
  show ?thesis
  proof (cases "fst (lim k (world s))")
    case (Inl er)
    with chk show ?thesis
      by (simp add: fetch_def opt_limited_def getWasmWorker_def forward_fetch_def n
          split: prod.splits)
  next
    case (Inr success)
    with chk show ?thesis
      by (simp add: fetch_def opt_limited_def getWasmWorker_def forward_fetch_def n
          createRateLimitResponse_def emit_def split: prod.splits)
  qed
qed


lemma first_login_passes:
  "fetch ok_worker token_json_request (limiter_env (counting_limiter 1)) ExecutionContext
     initial_state =
   (Inr ok_response,
    \<lparr>world = (\<lambda>k. 0)(''email:user@example.com'' := Suc 0),
     trace = [RequestClone, BodyJson, LimiterLimit ''email:user@example.com'',
              WorkerFetch token_json_request]\<rparr>)"
proof -
  let ?c = "\<lparr>limiter = ''LOGIN_RATE_LIMITER'', keyType = ''email''\<rparr>"
  have m: "RATE_LIMITED_ENDPOINTS (url_pathname token_json_request) = Some ?c"
    by (simp add: token_json_request_def endpoint_examples)
  have b: "limiter_env (counting_limiter 1) (limiter ?c) = Some (RateLimiter (counting_limiter 1))"
    by (simp add: limiter_env_def)
  have e: "extractRateLimitKey token_json_request (keyType ?c)
             = (''email:user@example.com'', [RequestClone, BodyJson])"
    by (simp add: token_json_key)
  have chk: "checkRateLimit token_json_request (limiter_env (counting_limiter 1)) initial_state =
      (Some \<lparr>limited = False, key = ''email:user@example.com'',
             endpoint = url_pathname token_json_request\<rparr>,
       \<lparr>world = (\<lambda>k. 0)(''email:user@example.com'' := Suc 0),
        trace = [RequestClone, BodyJson, LimiterLimit ''email:user@example.com'']\<rparr>)"
    using check_RateLimiter [where env = "limiter_env (counting_limiter 1)"
        and s = initial_state, OF m b e]
    by (simp add: counting_limiter_def initial_state_def)
  show ?thesis
    using fetch_not_limited [OF chk, of ok_worker ExecutionContext]
    by (simp add: opt_limited_def ok_worker_def)
qed

section \<open>The claims\<close>

subsection \<open>C1: a request the limiter refuses is answered with 429\<close>

text \<open>
  C1. For a request whose path is a key of the policy table, with the limiter named there
  bound in \<^verbatim>\<open>env\<close> and its \<^verbatim>\<open>limit\<close> call resolving to \<^verbatim>\<open>{success: false}\<close> on the key
  derived from the request, \<^verbatim>\<open>checkRateLimit\<close> returns the decision with \<open>limited\<close> true,
  that key and that path, and \<^verbatim>\<open>fetch\<close> returns a response with status 429, the headers
  \<^verbatim>\<open>Retry-After: 60\<close> and \<^verbatim>\<open>Content-Type: application/json\<close>, and the fixed JSON error body.
\<close>

theorem limited_request_gets_429:
  assumes m: "RATE_LIMITED_ENDPOINTS (url_pathname request) = Some c"
    and b: "env (limiter c) = Some (RateLimiter lim)"
    and k: "k = fst (extractRateLimitKey request (keyType c))"
    and r: "fst (lim k (world s)) = Inr False"
  shows \<open>fst (checkRateLimit request env s) =
           Some \<lparr>limited = True, key = k, endpoint = url_pathname request\<rparr> \<and>
         (\<exists>resp. fst (fetch WasmWorker request env ctx s) = Inr resp \<and>
            status resp = 429 \<and>
            headers_get (resp_headers resp) ''Retry-After'' = Some ''60'' \<and>
            headers_get (resp_headers resp) ''Content-Type'' = Some ''application/json'' \<and>
            resp_body resp =
              ''{"error":"too_many_requests","error_description":"Too many requests. Please try again later.","ErrorModel":{"Message":"Too many requests. Please try again later.","Object":"error"}}'')\<close>
proof -
  obtain evs where e: "extractRateLimitKey request (keyType c) = (k, evs)"
    using k by (cases "extractRateLimitKey request (keyType c)") simp
  define s2 :: "'a state"
    where "s2 = \<lparr>world = snd (lim k (world s)), trace = trace s @ evs @ [LimiterLimit k]\<rparr>"
  have chk: "checkRateLimit request env s =
               (Some \<lparr>limited = True, key = k, endpoint = url_pathname request\<rparr>, s2)"
    using check_RateLimiter [where env = env and s = s, OF m b e] r by (simp add: s2_def)
  have f: "fetch WasmWorker request env ctx s =
             (Inr (fst (createRateLimitResponse k (url_pathname request))),
              emit (snd (createRateLimitResponse k (url_pathname request))) s2)"
    using fetch_limited [OF chk] by simp
  show ?thesis
    by (simp add: chk f createRateLimitResponse_def headers_get_def headers_init_def
        header_names stringify_errorResponse)
qed

theorem limited_request_gets_429_witness:
  "RATE_LIMITED_ENDPOINTS (url_pathname token_json_request)
     = Some \<lparr>limiter = ''LOGIN_RATE_LIMITER'', keyType = ''email''\<rparr> \<and>
   limiter_env (counting_limiter 0) ''LOGIN_RATE_LIMITER'' = Some (RateLimiter (counting_limiter 0)) \<and>
   fst (counting_limiter 0 ''email:user@example.com'' (world initial_state)) = Inr False \<and>
   fst (checkRateLimit token_json_request (limiter_env (counting_limiter 0)) initial_state) =
     Some \<lparr>limited = True, key = ''email:user@example.com'', endpoint = ''/identity/connect/token''\<rparr> \<and>
   (\<exists>resp. fst (fetch ok_worker token_json_request (limiter_env (counting_limiter 0))
                 ExecutionContext initial_state) = Inr resp \<and> status resp = 429)"
proof -
  let ?c = "\<lparr>limiter = ''LOGIN_RATE_LIMITER'', keyType = ''email''\<rparr>"
  have m: "RATE_LIMITED_ENDPOINTS (url_pathname token_json_request) = Some ?c"
    by (simp add: token_json_request_def endpoint_examples)
  have b: "limiter_env (counting_limiter 0) (limiter ?c) = Some (RateLimiter (counting_limiter 0))"
    by (simp add: limiter_env_def)
  have k: "''email:user@example.com'' = fst (extractRateLimitKey token_json_request (keyType ?c))"
    by (simp add: token_json_key)
  have r: "fst (counting_limiter 0 ''email:user@example.com'' (world initial_state)) = Inr False"
    by (simp add: counting_limiter_def)
  have p: "url_pathname token_json_request = ''/identity/connect/token''"
    by (simp add: token_json_request_def)
  from limited_request_gets_429 [where env = "limiter_env (counting_limiter 0)"
      and WasmWorker = ok_worker and ctx = ExecutionContext, OF m b k r]
  have "fst (checkRateLimit token_json_request (limiter_env (counting_limiter 0)) initial_state) =
     Some \<lparr>limited = True, key = ''email:user@example.com'', endpoint = ''/identity/connect/token''\<rparr> \<and>
   (\<exists>resp. fst (fetch ok_worker token_json_request (limiter_env (counting_limiter 0))
                 ExecutionContext initial_state) = Inr resp \<and> status resp = 429)"
    unfolding p by blast
  with m b r show ?thesis by simp
qed

subsection \<open>C2: a missing limiter binding fails open\<close>

text \<open>
  C2. For a request whose path is a key of the policy table while the limiter named there
  is absent from \<^verbatim>\<open>env\<close>, the rate-limit check reports "not limited": \<^verbatim>\<open>checkRateLimit\<close>
  returns \<^verbatim>\<open>null\<close>, so that the condition \<^verbatim>\<open>rateLimitResult?.limited\<close> of the handler is
  false. The check writes one warning to the console, and \<^verbatim>\<open>fetch\<close> then hands the request
  to the backend and returns what the backend returns.
\<close>

theorem missing_binding_fails_open:
  assumes m: "RATE_LIMITED_ENDPOINTS (url_pathname request) = Some c"
    and a: "env (limiter c) = None"
  shows "fst (checkRateLimit request env s) = None \<and>
         \<not> opt_limited (fst (checkRateLimit request env s)) \<and>
         trace (snd (checkRateLimit request env s))
           = trace s @ [ConsoleWarn (binding_missing_message (limiter c)) None] \<and>
         fetch WasmWorker request env ctx s =
           (fst (worker_fetch (WasmWorker ctx env) request (world s)),
            \<lparr>world = snd (worker_fetch (WasmWorker ctx env) request (world s)),
             trace = trace s @ [ConsoleWarn (binding_missing_message (limiter c)) None,
                                WorkerFetch request]\<rparr>)"
proof -
  have chk: "checkRateLimit request env s =
               (None, s\<lparr>trace := trace s @ [ConsoleWarn (binding_missing_message (limiter c)) None]\<rparr>)"
    using check_binding_falsy [where env = env, OF m] a by simp
  have f: "fetch WasmWorker request env ctx s =
           (fst (worker_fetch (WasmWorker ctx env) request (world s)),
            \<lparr>world = snd (worker_fetch (WasmWorker ctx env) request (world s)),
             trace = trace s @ [ConsoleWarn (binding_missing_message (limiter c)) None,
                                WorkerFetch request]\<rparr>)"
    using fetch_not_limited [OF chk] by (simp add: opt_limited_def)
  from chk f show ?thesis by (simp add: opt_limited_def)
qed

theorem missing_binding_fails_open_witness:
  "RATE_LIMITED_ENDPOINTS (url_pathname register_request)
     = Some \<lparr>limiter = ''LOGIN_RATE_LIMITER'', keyType = ''ip''\<rparr> \<and>
   empty_env ''LOGIN_RATE_LIMITER'' = None \<and>
   fst (checkRateLimit register_request empty_env initial_state) = None \<and>
   trace (snd (checkRateLimit register_request empty_env initial_state)) =
     [ConsoleWarn ''Rate limiter binding 'LOGIN_RATE_LIMITER' not found, skipping rate limit check''
        None] \<and>
   fst (fetch ok_worker register_request empty_env ExecutionContext initial_state) = Inr ok_response"
proof -
  let ?c = "\<lparr>limiter = ''LOGIN_RATE_LIMITER'', keyType = ''ip''\<rparr>"
  have m: "RATE_LIMITED_ENDPOINTS (url_pathname register_request) = Some ?c"
    by (simp add: register_request_def endpoint_examples)
  have a: "empty_env (limiter ?c) = None"
    by (simp add: empty_env_def)
  note t = missing_binding_fails_open [where env = empty_env and s = initial_state
      and WasmWorker = ok_worker and ctx = ExecutionContext, OF m a]
  have c1: "fst (checkRateLimit register_request empty_env initial_state) = None"
    using t by blast
  have c2: "trace (snd (checkRateLimit register_request empty_env initial_state)) =
     [ConsoleWarn ''Rate limiter binding 'LOGIN_RATE_LIMITER' not found, skipping rate limit check''
        None]"
    using t by (simp add: missing_message initial_state_def)
  have c3: "fst (fetch ok_worker register_request empty_env ExecutionContext initial_state)
              = Inr ok_response"
    using t by (simp add: ok_worker_def)
  from m a c1 c2 c3 show ?thesis by simp
qed

subsection \<open>C3: the key under the email strategy\<close>

text \<open>
  C3, as the code has it. Under the key type \<^verbatim>\<open>email\<close>, for a request that can be cloned:
  if the content type contains \<^verbatim>\<open>application/x-www-form-urlencoded\<close> and the form field
  \<^verbatim>\<open>username\<close> is a non-empty string, the key is \<^verbatim>\<open>email:\<close> followed by that value in lower
  case; otherwise, if the content type contains \<^verbatim>\<open>application/json\<close> and the body is an
  object, the key is \<^verbatim>\<open>email:\<close> followed by the lower-cased field \<^verbatim>\<open>email\<close> when that is a
  non-empty string, and by the lower-cased field \<^verbatim>\<open>username\<close> (a non-empty string) when
  \<^verbatim>\<open>email\<close> is absent or falsy (the empty string, \<^verbatim>\<open>null\<close>, \<^verbatim>\<open>false\<close>, zero).
\<close>

theorem email_key_from_body:
  assumes "\<not> bodyUsed r"
    and "ct = js_or (headers_get (headers r) ''content-type'') ''''"
  shows
    "(str_includes ct ''application/x-www-form-urlencoded'' \<and> formData r = Inr fd \<and>
      form_get fd ''username'' = Some (FormString u) \<and> u \<noteq> []
        \<longrightarrow> fst (extractRateLimitKey r ''email'') = ''email:'' @ toLowerCase u) \<and>
     (\<not> str_includes ct ''application/x-www-form-urlencoded'' \<and>
      str_includes ct ''application/json'' \<and> json r = Inr (JObject kvs) \<and>
      map_of kvs ''email'' = Some (JString e) \<and> e \<noteq> []
        \<longrightarrow> fst (extractRateLimitKey r ''email'') = ''email:'' @ toLowerCase e) \<and>
     (\<not> str_includes ct ''application/x-www-form-urlencoded'' \<and>
      str_includes ct ''application/json'' \<and> json r = Inr (JObject kvs) \<and>
      \<not> truthy (case map_of kvs ''email'' of None \<Rightarrow> JUndefined | Some v \<Rightarrow> v) \<and>
      map_of kvs ''username'' = Some (JString n) \<and> n \<noteq> []
        \<longrightarrow> fst (extractRateLimitKey r ''email'') = ''email:'' @ toLowerCase n)"
  using assms
  by (simp add: extract_email_cases try_email_def Let_def)

theorem email_key_from_body_witness:
  "\<not> bodyUsed token_form_request \<and>
   formData token_form_request = Inr [(''username'', FormString ''User@Example.com'')] \<and>
   fst (extractRateLimitKey token_form_request ''email'') = ''email:user@example.com'' \<and>
   json token_json_request =
     Inr (JObject [(''email'', JString ''User@Example.com''), (''password'', JString ''x'')]) \<and>
   fst (extractRateLimitKey token_json_request ''email'') = ''email:user@example.com'' \<and>
   json token_json_username_request = Inr (JObject [(''username'', JString ''User@Example.com'')]) \<and>
   fst (extractRateLimitKey token_json_username_request ''email'') = ''email:user@example.com''"
proof -
  have fb: "\<not> bodyUsed token_form_request"
    by (simp add: token_form_request_def)
  have fp: "formData token_form_request = Inr [(''username'', FormString ''User@Example.com'')]"
    by (simp add: token_form_request_def)
  have f: "fst (extractRateLimitKey token_form_request ''email'') = ''email:user@example.com''"
  proof -
    have c: "''application/x-www-form-urlencoded'' =
               js_or (headers_get (headers token_form_request) ''content-type'') ''''"
      by (simp add: token_form_request_def headers_get_def header_names js_or_def)
    have g: "form_get [(''username'', FormString ''User@Example.com'')] ''username''
               = Some (FormString ''User@Example.com'')"
      by (simp add: form_get_def)
    have ne: "''User@Example.com'' \<noteq> []" by simp
    from email_key_from_body [OF fb c, of "[(''username'', FormString ''User@Example.com'')]"
        "''User@Example.com''" "[]" "[]" "[]"] fp g ne includes_examples(1)
    have "fst (extractRateLimitKey token_form_request ''email'')
            = ''email:'' @ toLowerCase ''User@Example.com''"
      by blast
    then show ?thesis by (simp add: lower_example)
  qed
  have jp: "json token_json_request =
               Inr (JObject [(''email'', JString ''User@Example.com''), (''password'', JString ''x'')])"
    by (simp add: token_json_request_def)
  have j: "fst (extractRateLimitKey token_json_request ''email'') = ''email:user@example.com''"
  proof -
    have b: "\<not> bodyUsed token_json_request"
      by (simp add: token_json_request_def)
    have c: "''application/json'' =
               js_or (headers_get (headers token_json_request) ''content-type'') ''''"
      by (simp add: token_json_request_def headers_get_def header_names js_or_def)
    have g: "map_of [(''email'', JString ''User@Example.com''), (''password'', JString ''x'')] ''email''
               = Some (JString ''User@Example.com'')"
      by simp
    have ne: "''User@Example.com'' \<noteq> []" by simp
    from email_key_from_body [OF b c, of "[]" "[]"
        "[(''email'', JString ''User@Example.com''), (''password'', JString ''x'')]"
        "''User@Example.com''" "[]"] jp g ne includes_examples(2,3)
    have "fst (extractRateLimitKey token_json_request ''email'')
            = ''email:'' @ toLowerCase ''User@Example.com''"
      by blast
    then show ?thesis by (simp add: lower_example)
  qed
  have up: "json token_json_username_request =
               Inr (JObject [(''username'', JString ''User@Example.com'')])"
    by (simp add: token_json_username_request_def)
  have u: "fst (extractRateLimitKey token_json_username_request ''email'') = ''email:user@example.com''"
  proof -
    have b: "\<not> bodyUsed token_json_username_request"
      by (simp add: token_json_username_request_def)
    have c: "''application/json; charset=utf-8'' =
               js_or (headers_get (headers token_json_username_request) ''content-type'') ''''"
      by (simp add: token_json_username_request_def headers_get_def header_names js_or_def)
    have g: "\<not> truthy (case map_of [(''username'', JString ''User@Example.com'')] ''email'' of
                          None \<Rightarrow> JUndefined | Some v \<Rightarrow> v)"
      by simp
    have g': "map_of [(''username'', JString ''User@Example.com'')] ''username''
               = Some (JString ''User@Example.com'')"
      by simp
    have ne: "''User@Example.com'' \<noteq> []" by simp
    from email_key_from_body [OF b c, of "[]" "[]"
        "[(''username'', JString ''User@Example.com'')]" "[]" "''User@Example.com''"]
      up g g' ne includes_examples(4,5)
    have "fst (extractRateLimitKey token_json_username_request ''email'')
            = ''email:'' @ toLowerCase ''User@Example.com''"
      by blast
    then show ?thesis by (simp add: lower_example)
  qed
  from fb fp f jp j up u show ?thesis by simp
qed

text \<open>
  The claim as it is written fails where the field is there and empty: for the form body
  \<^verbatim>\<open>username=\<close> the key is not \<^verbatim>\<open>email:\<close> followed by the (empty) lower-cased value, it is the
  key of the IP strategy; and for the JSON body \<^verbatim>\<open>{"email":"","username":"Bob@Example.com"}\<close>
  the field \<^verbatim>\<open>email\<close> is present, yet the key is made from \<^verbatim>\<open>username\<close>.
\<close>

theorem email_key_empty_field_counterexample:
  "str_includes (js_or (headers_get (headers token_form_empty_username) ''content-type'') '''')
     ''application/x-www-form-urlencoded'' \<and>
   formData token_form_empty_username = Inr [(''username'', FormString [])] \<and>
   fst (extractRateLimitKey token_form_empty_username ''email'') = ''ip:1.2.3.4'' \<and>
   fst (extractRateLimitKey token_form_empty_username ''email'') \<noteq> ''email:'' @ toLowerCase [] \<and>
   json token_json_empty_email =
     Inr (JObject [(''email'', JString []), (''username'', JString ''Bob@Example.com'')]) \<and>
   fst (extractRateLimitKey token_json_empty_email ''email'') = ''email:bob@example.com'' \<and>
   fst (extractRateLimitKey token_json_empty_email ''email'') \<noteq> ''email:'' @ toLowerCase []"
proof -
  have l: "toLowerCase ''Bob@Example.com'' = ''bob@example.com''"
    by (simp add: toLowerCase_def lower_char_def char_of_def bit_Suc_0_iff)
  have e: "toLowerCase [] = []"
    by (simp add: toLowerCase_def)
  have f: "fst (extractRateLimitKey token_form_empty_username ''email'') = ''ip:1.2.3.4''"
    by (simp add: token_form_empty_username_def extract_email_cases try_email_def headers_get_def
        header_names js_or_def form_get_def)
  have j: "fst (extractRateLimitKey token_json_empty_email ''email'') = ''email:bob@example.com''"
    by (simp add: token_json_empty_email_def extract_email_cases try_email_def headers_get_def
        header_names js_or_def l)
  show ?thesis
    unfolding f j e
    by (simp add: token_form_empty_username_def token_json_empty_email_def headers_get_def
        header_names js_or_def)
qed

subsection \<open>C4: a failed extraction falls back to the IP key\<close>

text \<open>
  C4, as the code has it. Under the key type \<^verbatim>\<open>email\<close>, whenever the extraction from the body
  fails (the content type contains neither \<^verbatim>\<open>application/x-www-form-urlencoded\<close> nor
  \<^verbatim>\<open>application/json\<close>; the body does not parse; the field is missing; or anything in the
  \<^verbatim>\<open>try\<close> block throws), \<^verbatim>\<open>extractRateLimitKey\<close> still returns a key, and it is the key
  of the IP strategy: \<^verbatim>\<open>ip:\<close> followed by the value of the header \<^verbatim>\<open>cf-connecting-ip\<close> when
  that header is present and not empty, and \<^verbatim>\<open>ip:unknown\<close> when it is absent or empty.
  The function has no exceptional result: every operation that can throw sits inside the
  \<^verbatim>\<open>try\<close> block, whose exceptions end in the fallback.
\<close>

theorem failed_extraction_falls_back_to_ip:
  assumes ct: "ct = js_or (headers_get (headers r) ''content-type'') ''''"
    and failure:
      "(\<not> str_includes ct ''application/x-www-form-urlencoded'' \<and>
        \<not> str_includes ct ''application/json'') \<or>
       (str_includes ct ''application/x-www-form-urlencoded'' \<and> (\<exists>e. formData r = Inl e)) \<or>
       (\<not> str_includes ct ''application/x-www-form-urlencoded'' \<and>
        str_includes ct ''application/json'' \<and> (\<exists>e. json r = Inl e)) \<or>
       (str_includes ct ''application/x-www-form-urlencoded'' \<and>
        (\<exists>fd. formData r = Inr fd \<and> form_get fd ''username'' = None)) \<or>
       (\<not> str_includes ct ''application/x-www-form-urlencoded'' \<and>
        str_includes ct ''application/json'' \<and>
        (\<exists>kvs. json r = Inr (JObject kvs) \<and> map_of kvs ''email'' = None \<and>
               map_of kvs ''username'' = None)) \<or>
       (\<exists>e. fst (try_email r) = Inl e)"
  shows "fst (extractRateLimitKey r ''email'') = fst (extractRateLimitKey r ''ip'') \<and>
         fst (extractRateLimitKey r ''email'') =
           ''ip:'' @ (case headers_get (headers r) ''cf-connecting-ip'' of
                        None \<Rightarrow> ''unknown''
                      | Some v \<Rightarrow> if v = [] then ''unknown'' else v)"
proof -
  have no_key: "fst (try_email r) \<noteq> Inr (Some k)" for k
    using failure unfolding ct
    by (auto simp: try_email_def Let_def)
  have "fst (extractRateLimitKey r ''email'')
          = ''ip:'' @ js_or (headers_get (headers r) ''cf-connecting-ip'') ''unknown''"
  proof (cases "fst (try_email r)")
    case (Inl e)
    then show ?thesis by (simp add: extract_email_cases)
  next
    case (Inr res)
    with no_key have "res = None" by (cases res) auto
    with Inr show ?thesis by (simp add: extract_email_cases)
  qed
  then show ?thesis
    by (simp add: extract_ip js_or_def split: option.splits)
qed

theorem failed_extraction_falls_back_to_ip_witness:
  "\<not> str_includes (js_or (headers_get (headers token_text_request) ''content-type'') '''')
       ''application/x-www-form-urlencoded'' \<and>
   \<not> str_includes (js_or (headers_get (headers token_text_request) ''content-type'') '''')
       ''application/json'' \<and>
   headers_get (headers token_text_request) ''cf-connecting-ip'' = Some ''1.2.3.4'' \<and>
   fst (extractRateLimitKey token_text_request ''email'') = ''ip:1.2.3.4'' \<and>
   fst (extractRateLimitKey token_text_request ''email'')
     = fst (extractRateLimitKey token_text_request ''ip'')"
proof -
  have c: "''text/plain'' = js_or (headers_get (headers token_text_request) ''content-type'') ''''"
    by (simp add: token_text_request_def headers_get_def header_names js_or_def)
  have h: "headers_get (headers token_text_request) ''cf-connecting-ip'' = Some ''1.2.3.4''"
    by (simp add: token_text_request_def headers_get_def header_names)
  have fl: "(\<not> str_includes ''text/plain'' ''application/x-www-form-urlencoded'' \<and>
        \<not> str_includes ''text/plain'' ''application/json'') \<or>
       (str_includes ''text/plain'' ''application/x-www-form-urlencoded'' \<and>
        (\<exists>e. formData token_text_request = Inl e)) \<or>
       (\<not> str_includes ''text/plain'' ''application/x-www-form-urlencoded'' \<and>
        str_includes ''text/plain'' ''application/json'' \<and> (\<exists>e. json token_text_request = Inl e)) \<or>
       (str_includes ''text/plain'' ''application/x-www-form-urlencoded'' \<and>
        (\<exists>fd. formData token_text_request = Inr fd \<and> form_get fd ''username'' = None)) \<or>
       (\<not> str_includes ''text/plain'' ''application/x-www-form-urlencoded'' \<and>
        str_includes ''text/plain'' ''application/json'' \<and>
        (\<exists>kvs. json token_text_request = Inr (JObject kvs) \<and> map_of kvs ''email'' = None \<and>
               map_of kvs ''username'' = None)) \<or>
       (\<exists>e. fst (try_email token_text_request) = Inl e)"
    using includes_examples(6,7) by blast
  note t = failed_extraction_falls_back_to_ip [OF c fl]
  have k: "fst (extractRateLimitKey token_text_request ''email'') = ''ip:1.2.3.4''"
    using t [THEN conjunct2] h by simp
  have q: "fst (extractRateLimitKey token_text_request ''email'')
     = fst (extractRateLimitKey token_text_request ''ip'')"
    using t [THEN conjunct1] .
  from h k q includes_examples(6,7) show ?thesis unfolding c [symmetric] by simp
qed

text \<open>
  The claim as it is written fails for a header that is present with the empty string as
  its value: the key is \<^verbatim>\<open>ip:unknown\<close>, not \<^verbatim>\<open>ip:\<close> followed by the value of the header.
\<close>

theorem failed_extraction_empty_header_counterexample:
  "\<not> str_includes (js_or (headers_get (headers token_text_empty_ip) ''content-type'') '''')
       ''application/x-www-form-urlencoded'' \<and>
   \<not> str_includes (js_or (headers_get (headers token_text_empty_ip) ''content-type'') '''')
       ''application/json'' \<and>
   headers_get (headers token_text_empty_ip) ''cf-connecting-ip'' = Some [] \<and>
   fst (extractRateLimitKey token_text_empty_ip ''email'') = ''ip:unknown'' \<and>
   fst (extractRateLimitKey token_text_empty_ip ''email'') \<noteq> ''ip:'' @ []"
proof -
  have k: "fst (extractRateLimitKey token_text_empty_ip ''email'') = ''ip:unknown''"
    by (simp add: token_text_empty_ip_def extract_email_cases try_email_def headers_get_def
        header_names js_or_def)
  show ?thesis
    unfolding k
    by (simp add: token_text_empty_ip_def headers_get_def header_names js_or_def)
qed

subsection \<open>C5: a limiter that throws fails open\<close>

text \<open>
  C5. For a request on which the call \<^verbatim>\<open>limiter.limit({ key })\<close> throws (the limiter itself
  throws, or the binding has no such method), \<^verbatim>\<open>fetch\<close> logs the error and hands the request
  to the backend: the outcome of \<^verbatim>\<open>fetch\<close> is the outcome of the backend on that request,
  so its response is returned and the exception of the limiter never leaves the handler.
\<close>

theorem limiter_throw_fails_open:
  assumes m: "RATE_LIMITED_ENDPOINTS (url_pathname request) = Some c"
    and b: "env (limiter c) = Some bnd"
    and tr: "binding_truthy (Some bnd)"
    and e: "extractRateLimitKey request (keyType c) = (k, evs)"
    and t: "call_limit bnd k (emit evs s) = (Inl err, s2)"
  shows "fst (checkRateLimit request env s) = None \<and>
         fetch WasmWorker request env ctx s =
           (fst (worker_fetch (WasmWorker ctx env) request (world s2)),
            \<lparr>world = snd (worker_fetch (WasmWorker ctx env) request (world s2)),
             trace = trace s2 @
               [ConsoleError ''Rate limit check failed:'' (Some err), WorkerFetch request]\<rparr>)"
proof -
  have chk: "checkRateLimit request env s =
               (None, emit [ConsoleError ''Rate limit check failed:'' (Some err)] s2)"
    using check_limiter_reply [where env = env and s = s, OF m b tr e t] by simp
  have f: "fetch WasmWorker request env ctx s =
           (fst (worker_fetch (WasmWorker ctx env) request (world s2)),
            \<lparr>world = snd (worker_fetch (WasmWorker ctx env) request (world s2)),
             trace = trace s2 @
               [ConsoleError ''Rate limit check failed:'' (Some err), WorkerFetch request]\<rparr>)"
    using fetch_not_limited [OF chk] by (simp add: opt_limited_def emit_def)
  from chk f show ?thesis by simp
qed

theorem limiter_throw_fails_open_witness:
  "RATE_LIMITED_ENDPOINTS (url_pathname token_json_request)
     = Some \<lparr>limiter = ''LOGIN_RATE_LIMITER'', keyType = ''email''\<rparr> \<and>
   call_limit (RateLimiter failing_limiter) ''email:user@example.com''
       (emit [RequestClone, BodyJson] initial_state)
     = (Inl (HostError ''limiter unavailable''),
        \<lparr>world = world initial_state,
         trace = [RequestClone, BodyJson, LimiterLimit ''email:user@example.com'']\<rparr>) \<and>
   fetch ok_worker token_json_request (limiter_env failing_limiter) ExecutionContext initial_state =
     (Inr ok_response,
      \<lparr>world = world initial_state,
       trace = [RequestClone, BodyJson, LimiterLimit ''email:user@example.com'',
                ConsoleError ''Rate limit check failed:'' (Some (HostError ''limiter unavailable'')),
                WorkerFetch token_json_request]\<rparr>)"
proof -
  let ?c = "\<lparr>limiter = ''LOGIN_RATE_LIMITER'', keyType = ''email''\<rparr>"
  have m: "RATE_LIMITED_ENDPOINTS (url_pathname token_json_request) = Some ?c"
    by (simp add: token_json_request_def endpoint_examples)
  have b: "limiter_env failing_limiter (limiter ?c) = Some (RateLimiter failing_limiter)"
    by (simp add: limiter_env_def)
  have tr: "binding_truthy (Some (RateLimiter failing_limiter))"
    by simp
  have e: "extractRateLimitKey token_json_request (keyType ?c)
             = (''email:user@example.com'', [RequestClone, BodyJson])"
    by (simp add: token_json_key)
  have t: "call_limit (RateLimiter failing_limiter) ''email:user@example.com''
       (emit [RequestClone, BodyJson] initial_state)
     = (Inl (HostError ''limiter unavailable''),
        \<lparr>world = world initial_state,
         trace = [RequestClone, BodyJson, LimiterLimit ''email:user@example.com'']\<rparr>)"
    by (simp add: failing_limiter_def emit_def initial_state_def)
  have f: "fetch ok_worker token_json_request (limiter_env failing_limiter) ExecutionContext
             initial_state =
     (Inr ok_response,
      \<lparr>world = world initial_state,
       trace = [RequestClone, BodyJson, LimiterLimit ''email:user@example.com'',
                ConsoleError ''Rate limit check failed:'' (Some (HostError ''limiter unavailable'')),
                WorkerFetch token_json_request]\<rparr>)"
    using limiter_throw_fails_open [where env = "limiter_env failing_limiter"
        and s = initial_state and WasmWorker = ok_worker and ctx = ExecutionContext, OF m b tr e t]
    by (simp add: ok_worker_def)
  from m t f show ?thesis by simp
qed

subsection \<open>C6: a path outside the policy table bypasses the pipeline\<close>

text \<open>
  C6. For a request whose path is not a key of the policy table (string equality, so the
  match is exact and case-sensitive), \<^verbatim>\<open>checkRateLimit\<close> returns \<^verbatim>\<open>null\<close> and leaves the
  state as it was: nothing is appended to the trace, so the body is not read and no limiter
  is called. \<^verbatim>\<open>fetch\<close> hands the very request it received to the backend and returns the
  backend's outcome.
\<close>

theorem unmatched_path_bypasses:
  assumes "url_pathname request \<notin> dom RATE_LIMITED_ENDPOINTS"
  shows "checkRateLimit request env s = (None, s) \<and>
         fetch WasmWorker request env ctx s =
           (fst (worker_fetch (WasmWorker ctx env) request (world s)),
            \<lparr>world = snd (worker_fetch (WasmWorker ctx env) request (world s)),
             trace = trace s @ [WorkerFetch request]\<rparr>)"
proof -
  from assms have none: "RATE_LIMITED_ENDPOINTS (url_pathname request) = None"
    by (simp add: domIff)
  have chk: "checkRateLimit request env s = (None, s)"
    by (simp add: checkRateLimit_def none)
  show ?thesis
    using fetch_not_limited [OF chk] chk by (simp add: opt_limited_def)
qed

theorem unmatched_path_bypasses_witness:
  "url_pathname mixed_case_request \<notin> dom RATE_LIMITED_ENDPOINTS \<and>
   checkRateLimit mixed_case_request (limiter_env (counting_limiter 0)) initial_state
     = (None, initial_state) \<and>
   fetch ok_worker mixed_case_request (limiter_env (counting_limiter 0)) ExecutionContext
       initial_state =
     (Inr ok_response, \<lparr>world = world initial_state, trace = [WorkerFetch mixed_case_request]\<rparr>)"
proof -
  have h: "url_pathname mixed_case_request \<notin> dom RATE_LIMITED_ENDPOINTS"
    by (simp add: mixed_case_request_def dom_endpoints)
  from unmatched_path_bypasses [OF h, of "limiter_env (counting_limiter 0)" initial_state
      ok_worker ExecutionContext] h
  show ?thesis by (simp add: ok_worker_def initial_state_def)
qed

subsection \<open>C7: the shape of the key\<close>

text \<open>
  C7, as the code has it. For every request and every key type the key is a non-empty
  string that starts with \<^verbatim>\<open>email:\<close> or with \<^verbatim>\<open>ip:\<close>. Under the key type \<^verbatim>\<open>ip\<close> it is \<^verbatim>\<open>ip:\<close>
  followed by the value of the header \<^verbatim>\<open>cf-connecting-ip\<close> when that header is present and
  not empty, and it is exactly \<^verbatim>\<open>ip:unknown\<close> when the header is absent or empty.
\<close>

theorem key_shape:
  "fst (extractRateLimitKey r kt) \<noteq> [] \<and>
   (take 6 (fst (extractRateLimitKey r kt)) = ''email:'' \<or>
    take 3 (fst (extractRateLimitKey r kt)) = ''ip:'') \<and>
   (kt = ''ip'' \<longrightarrow>
      fst (extractRateLimitKey r kt) =
        ''ip:'' @ (case headers_get (headers r) ''cf-connecting-ip'' of
                     None \<Rightarrow> ''unknown''
                   | Some v \<Rightarrow> if v = [] then ''unknown'' else v))"
proof (cases "kt = ''email''")
  case False
  then show ?thesis
    by (simp add: extract_ip js_or_def split: option.splits)
next
  case True
  show ?thesis
  proof (cases "fst (try_email r)")
    case (Inl e)
    then show ?thesis using True by (simp add: extract_email_cases)
  next
    case (Inr res)
    show ?thesis
    proof (cases res)
      case None
      then show ?thesis using True Inr by (simp add: extract_email_cases)
    next
      case (Some k)
      with Inr obtain l where "k = ''email:'' @ l" using try_email_key by blast
      then show ?thesis using True Inr Some by (simp add: extract_email_cases)
    qed
  qed
qed

theorem key_shape_witness:
  "headers_get (headers register_request) ''cf-connecting-ip'' = Some ''1.2.3.4'' \<and>
   fst (extractRateLimitKey register_request ''ip'') = ''ip:1.2.3.4'' \<and>
   headers_get (headers mixed_case_request) ''content-type'' = None \<and>
   take 3 (fst (extractRateLimitKey mixed_case_request ''email'')) = ''ip:''"
proof -
  have h: "headers_get (headers register_request) ''cf-connecting-ip'' = Some ''1.2.3.4''"
    by (simp add: register_request_def headers_get_def header_names)
  have k: "fst (extractRateLimitKey register_request ''ip'') = ''ip:1.2.3.4''"
    using key_shape [of register_request "''ip''"] h by simp
  have n: "headers_get (headers mixed_case_request) ''content-type'' = None"
    by (simp add: mixed_case_request_def headers_get_def header_names)
  have ne: "take 6 (fst (extractRateLimitKey mixed_case_request ''email'')) \<noteq> ''email:''"
    by (simp add: extractRateLimitKey_def try_email_def mixed_case_request_def
        headers_get_def header_names js_or_def)
  have p: "take 3 (fst (extractRateLimitKey mixed_case_request ''email'')) = ''ip:''"
    using key_shape [of mixed_case_request "''email''"] ne by blast
  from h k n p show ?thesis by simp
qed

text \<open>
  The claim as it is written fails under the key type \<^verbatim>\<open>ip\<close> for a header that is present
  with the empty string as its value: the key is \<^verbatim>\<open>ip:unknown\<close>, not \<^verbatim>\<open>ip:\<close> followed by
  the value of the header.
\<close>

theorem ip_key_empty_header_counterexample:
  "headers_get (headers register_empty_ip) ''cf-connecting-ip'' = Some [] \<and>
   fst (extractRateLimitKey register_empty_ip ''ip'') = ''ip:unknown'' \<and>
   fst (extractRateLimitKey register_empty_ip ''ip'') \<noteq> ''ip:'' @ []"
  by (simp add: extract_ip register_empty_ip_def headers_get_def header_names js_or_def)

subsection \<open>C8: scheduled events go straight to the backend\<close>

text \<open>
  C8. \<^verbatim>\<open>scheduled\<close> hands every event to the \<^verbatim>\<open>scheduled\<close> method of a backend instance
  built from \<^verbatim>\<open>ctx\<close> and \<^verbatim>\<open>env\<close> and returns its outcome. The only event it adds to the trace
  is that call: no request is read, no key is extracted, no limiter is called, and nothing
  is written to the console.
\<close>

theorem scheduled_passes_through:
  "scheduled WasmWorker ev env ctx s =
     (fst (worker_scheduled (WasmWorker ctx env) ev (world s)),
      \<lparr>world = snd (worker_scheduled (WasmWorker ctx env) ev (world s)),
       trace = trace s @ [WorkerScheduled ev]\<rparr>) \<and>
   limit_calls (trace (snd (scheduled WasmWorker ev env ctx s))) = limit_calls (trace s) \<and>
   body_reads (trace (snd (scheduled WasmWorker ev env ctx s))) = body_reads (trace s)"
  by (simp add: scheduled_def getWasmWorker_def forward_scheduled_def body_reads_def
      split: prod.splits)

theorem scheduled_passes_through_witness:
  "scheduled ok_worker nightly_event (limiter_env (counting_limiter 0)) ExecutionContext initial_state =
     (Inr (), \<lparr>world = world initial_state, trace = [WorkerScheduled nightly_event]\<rparr>)"
  using scheduled_passes_through [of ok_worker nightly_event "limiter_env (counting_limiter 0)"
      ExecutionContext initial_state]
  by (simp add: ok_worker_def initial_state_def)

subsection \<open>C9: every request makes its own limiter call\<close>

text \<open>
  C9. For two requests on rate-limited paths that carry the same key, two calls of
  \<^verbatim>\<open>fetch\<close> in a row make two calls of the limiter, each with that key: whatever the first
  call did, the second one asks again. The decision of \<^verbatim>\<open>checkRateLimit\<close> in any state is
  fixed by the path and the key of the request, the limiter bound in \<^verbatim>\<open>env\<close>, and the
  reply of that limiter; the wrapper keeps nothing from one request to the next.
\<close>

theorem same_key_two_limiter_calls:
  assumes m1: "RATE_LIMITED_ENDPOINTS (url_pathname r1) = Some c1"
    and m2: "RATE_LIMITED_ENDPOINTS (url_pathname r2) = Some c2"
    and b1: "env (limiter c1) = Some (RateLimiter lim1)"
    and b2: "env (limiter c2) = Some (RateLimiter lim2)"
    and k1: "fst (extractRateLimitKey r1 (keyType c1)) = k"
    and k2: "fst (extractRateLimitKey r2 (keyType c2)) = k"
  shows "limit_calls (trace (snd (fetch WasmWorker r2 env ctx (snd (fetch WasmWorker r1 env ctx s)))))
           = limit_calls (trace s) @ [k, k] \<and>
         fst (checkRateLimit r1 env t1) =
           (case fst (lim1 k (world t1)) of
              Inl er \<Rightarrow> None
            | Inr success \<Rightarrow>
                Some \<lparr>limited = \<not> success, key = k, endpoint = url_pathname r1\<rparr>) \<and>
         fst (checkRateLimit r2 env t2) =
           (case fst (lim2 k (world t2)) of
              Inl er \<Rightarrow> None
            | Inr success \<Rightarrow>
                Some \<lparr>limited = \<not> success, key = k, endpoint = url_pathname r2\<rparr>)"
proof -
  have calls:
    "limit_calls (trace (snd (fetch WasmWorker r2 env ctx (snd (fetch WasmWorker r1 env ctx s)))))
       = limit_calls (trace s) @ [k, k]"
    by (simp add: fetch_limit_calls [where env = env, OF m2 b2 k2]
        fetch_limit_calls [where env = env, OF m1 b1 k1])
  obtain e1 where e1: "extractRateLimitKey r1 (keyType c1) = (k, e1)"
    using k1 by (cases "extractRateLimitKey r1 (keyType c1)") simp
  obtain e2 where e2: "extractRateLimitKey r2 (keyType c2) = (k, e2)"
    using k2 by (cases "extractRateLimitKey r2 (keyType c2)") simp
  have d1: "fst (checkRateLimit r1 env t1) =
           (case fst (lim1 k (world t1)) of
              Inl er \<Rightarrow> None
            | Inr success \<Rightarrow>
                Some \<lparr>limited = \<not> success, key = k, endpoint = url_pathname r1\<rparr>)"
    by (simp add: check_RateLimiter [where env = env, OF m1 b1 e1] split: sum.splits)
  have d2: "fst (checkRateLimit r2 env t2) =
           (case fst (lim2 k (world t2)) of
              Inl er \<Rightarrow> None
            | Inr success \<Rightarrow>
                Some \<lparr>limited = \<not> success, key = k, endpoint = url_pathname r2\<rparr>)"
    by (simp add: check_RateLimiter [where env = env, OF m2 b2 e2] split: sum.splits)
  from calls d1 d2 show ?thesis by simp
qed

theorem same_key_two_limiter_calls_witness:
  "fst (extractRateLimitKey token_json_request ''email'') = ''email:user@example.com'' \<and>
   fst (extractRateLimitKey token_form_request ''email'') = ''email:user@example.com'' \<and>
   limit_calls (trace (snd (fetch ok_worker token_form_request (limiter_env (counting_limiter 1))
       ExecutionContext
       (snd (fetch ok_worker token_json_request (limiter_env (counting_limiter 1))
          ExecutionContext initial_state)))))
     = [''email:user@example.com'', ''email:user@example.com''] \<and>
   fst (checkRateLimit token_json_request (limiter_env (counting_limiter 1)) initial_state)
     = Some \<lparr>limited = False, key = ''email:user@example.com'',
             endpoint = ''/identity/connect/token''\<rparr> \<and>
   fst (checkRateLimit token_form_request (limiter_env (counting_limiter 1))
          (snd (fetch ok_worker token_json_request (limiter_env (counting_limiter 1))
             ExecutionContext initial_state)))
     = Some \<lparr>limited = True, key = ''email:user@example.com'',
             endpoint = ''/identity/connect/token''\<rparr>"
proof -
  let ?c = "\<lparr>limiter = ''LOGIN_RATE_LIMITER'', keyType = ''email''\<rparr>"
  let ?env = "limiter_env (counting_limiter 1)"
  let ?s1 = "snd (fetch ok_worker token_json_request ?env ExecutionContext initial_state)"
  have m1: "RATE_LIMITED_ENDPOINTS (url_pathname token_json_request) = Some ?c"
    by (simp add: token_json_request_def endpoint_examples)
  have m2: "RATE_LIMITED_ENDPOINTS (url_pathname token_form_request) = Some ?c"
    by (simp add: token_form_request_def endpoint_examples)
  have b: "?env (limiter ?c) = Some (RateLimiter (counting_limiter 1))"
    by (simp add: limiter_env_def)
  have k1: "fst (extractRateLimitKey token_json_request (keyType ?c)) = ''email:user@example.com''"
    by (simp add: token_json_key)
  have k2: "fst (extractRateLimitKey token_form_request (keyType ?c)) = ''email:user@example.com''"
    by (simp add: token_form_key)
  note t = same_key_two_limiter_calls [where env = ?env and WasmWorker = ok_worker
      and ctx = ExecutionContext and s = initial_state and ?t1.0 = initial_state and ?t2.0 = ?s1,
      OF m1 m2 b b k1 k2]
  have calls: "limit_calls (trace (snd (fetch ok_worker token_form_request ?env ExecutionContext ?s1)))
     = [''email:user@example.com'', ''email:user@example.com'']"
    using t [THEN conjunct1] by (simp add: initial_state_def)
  have d1: "fst (checkRateLimit token_json_request ?env initial_state)
     = Some \<lparr>limited = False, key = ''email:user@example.com'',
             endpoint = ''/identity/connect/token''\<rparr>"
    using t [THEN conjunct2, THEN conjunct1]
    by (simp add: counting_limiter_def initial_state_def token_json_request_def)
  have d2: "fst (checkRateLimit token_form_request ?env ?s1)
     = Some \<lparr>limited = True, key = ''email:user@example.com'',
             endpoint = ''/identity/connect/token''\<rparr>"
    using t [THEN conjunct2, THEN conjunct2] unfolding first_login_passes
    by (simp add: counting_limiter_def token_form_request_def)
  from k1 k2 calls d1 d2 show ?thesis by simp
qed

subsection \<open>C10: the binding is looked up before the key is extracted\<close>

text \<open>
  C10. For a request whose path is a key of the policy table while the limiter named there
  is absent from \<^verbatim>\<open>env\<close>, \<^verbatim>\<open>checkRateLimit\<close> returns before \<^verbatim>\<open>extractRateLimitKey\<close> is
  called: the state changes by the one warning only, so the request is not cloned, its
  body is not read and no limiter is called, and the result is the same for every other
  request with that path, whatever its headers and its body.
\<close>

theorem missing_binding_skips_extraction:
  assumes m: "RATE_LIMITED_ENDPOINTS (url_pathname request) = Some c"
    and a: "env (limiter c) = None"
    and p: "url_pathname request' = url_pathname request"
  shows "checkRateLimit request env s =
           (None, s\<lparr>trace := trace s @ [ConsoleWarn (binding_missing_message (limiter c)) None]\<rparr>) \<and>
         body_reads (trace (snd (checkRateLimit request env s))) = body_reads (trace s) \<and>
         limit_calls (trace (snd (checkRateLimit request env s))) = limit_calls (trace s) \<and>
         checkRateLimit request' env s = checkRateLimit request env s"
proof -
  have chk: "checkRateLimit request env s =
               (None, s\<lparr>trace := trace s @ [ConsoleWarn (binding_missing_message (limiter c)) None]\<rparr>)"
    using check_binding_falsy [where env = env, OF m] a by simp
  have m': "RATE_LIMITED_ENDPOINTS (url_pathname request') = Some c"
    using m p by simp
  have chk': "checkRateLimit request' env s =
               (None, s\<lparr>trace := trace s @ [ConsoleWarn (binding_missing_message (limiter c)) None]\<rparr>)"
    using check_binding_falsy [where env = env, OF m'] a by simp
  from chk chk' show ?thesis by (simp add: body_reads_def)
qed

theorem missing_binding_skips_extraction_witness:
  "RATE_LIMITED_ENDPOINTS (url_pathname token_json_request)
     = Some \<lparr>limiter = ''LOGIN_RATE_LIMITER'', keyType = ''email''\<rparr> \<and>
   empty_env ''LOGIN_RATE_LIMITER'' = None \<and>
   url_pathname token_form_request = url_pathname token_json_request \<and>
   snd (extractRateLimitKey token_json_request ''email'') = [RequestClone, BodyJson] \<and>
   checkRateLimit token_json_request empty_env initial_state =
     (None,
      \<lparr>world = world initial_state,
       trace = [ConsoleWarn
         ''Rate limiter binding 'LOGIN_RATE_LIMITER' not found, skipping rate limit check'' None]\<rparr>) \<and>
   checkRateLimit token_form_request empty_env initial_state
     = checkRateLimit token_json_request empty_env initial_state"
proof -
  let ?c = "\<lparr>limiter = ''LOGIN_RATE_LIMITER'', keyType = ''email''\<rparr>"
  have m: "RATE_LIMITED_ENDPOINTS (url_pathname token_json_request) = Some ?c"
    by (simp add: token_json_request_def endpoint_examples)
  have a: "empty_env (limiter ?c) = None"
    by (simp add: empty_env_def)
  have p: "url_pathname token_form_request = url_pathname token_json_request"
    by (simp add: token_form_request_def token_json_request_def)
  note t = missing_binding_skips_extraction [where env = empty_env and s = initial_state, OF m a p]
  have c1: "checkRateLimit token_json_request empty_env initial_state =
     (None,
      \<lparr>world = world initial_state,
       trace = [ConsoleWarn
         ''Rate limiter binding 'LOGIN_RATE_LIMITER' not found, skipping rate limit check'' None]\<rparr>)"
    using t by (simp add: missing_message initial_state_def)
  have c2: "checkRateLimit token_form_request empty_env initial_state
     = checkRateLimit token_json_request empty_env initial_state"
    using t by blast
  from m a p c1 c2 show ?thesis by (simp add: token_json_key)
qed

end
